theory Spec2Isabelle
  imports Main "HOL-Library.Sublist"
begin

section \<open>ghmgr: data model\<close>

text \<open>
  The migrator is one Go file, \<^verbatim>\<open>main.go\<close>. It talks to two GitHub endpoints through the
  go-github client and to git through go-git. The model keeps the file's own functions and
  names; the client libraries, the file system and the YAML parser are parameters
  (the record \<open>env\<close> below).

  A Go \<^verbatim>\<open>error\<close> value is its message. A pointer field of a library struct
  (\<^verbatim>\<open>*string\<close>, \<^verbatim>\<open>*bool\<close>) is an \<open>option\<close>: \<open>None\<close> is \<^verbatim>\<open>nil\<close>, and dereferencing it
  panics.
\<close>

type_synonym error = string

text \<open>\<^verbatim>\<open>gh.Repository\<close>: the fields \<^verbatim>\<open>main.go\<close> reads or writes.\<close>

record Repository =
  Name :: "string option"
  Description :: "string option"
  Homepage :: "string option"
  Private :: "bool option"
  HasIssues :: "bool option"
  HasProjects :: "bool option"
  HasWiki :: "bool option"
  AllowRebaseMerge :: "bool option"
  AllowSquashMerge :: "bool option"
  Archived :: "bool option"
  SSHURL :: "string option"
  HTMLURL :: "string option"
  URL :: "string option"

text \<open>
  \<^verbatim>\<open>*gh.Client\<close>: an authenticated session, bound to a base URL and a token. The two
  constructors of the library are parameters; a \<^verbatim>\<open>nil\<close> client is \<open>None\<close>.
\<close>

record Client =
  BaseURL :: string
  UploadURL :: string
  AccessToken :: string

text \<open>
  \<^verbatim>\<open>gh.ListOptions\<close> (inside \<^verbatim>\<open>gh.RepositoryListOptions\<close> and
  \<^verbatim>\<open>gh.RepositoryListByOrgOptions\<close>) and the part of \<^verbatim>\<open>gh.Response\<close> the loop reads.
  Page 0 is "no page asked for": the server answers with the first page.
\<close>

record ListOptions =
  Page :: int
  PerPage :: int

record Response =
  NextPage :: int

text \<open>
  \<^verbatim>\<open>gh.RepositoryContent\<close> as fetched, \<^verbatim>\<open>gh.CommitAuthor\<close> and
  \<^verbatim>\<open>gh.RepositoryContentFileOptions\<close> as sent.
\<close>

record RepositoryContent =
  Encoding :: "string option"
  EncodedContent :: "string option"
  ContentSHA :: "string option"

record CommitAuthor =
  AuthorName :: "string option"
  AuthorEmail :: "string option"

record RepositoryContentFileOptions =
  Message :: "string option"
  Content :: string
  SHA :: "string option"
  Committer :: "CommitAuthor option"

text \<open>
  \<^verbatim>\<open>Configuration\<close>, with the nested structs \<^verbatim>\<open>Source\<close>, \<^verbatim>\<open>Source.Content\<close>,
  \<^verbatim>\<open>Target\<close> and \<^verbatim>\<open>Git\<close> flattened into prefixed fields.
\<close>

record Configuration =
  Source_URL :: string
  Source_Token :: string
  Source_Organization :: string
  Source_Instance :: "Client option"
  Source_Ignore :: "string list"
  Source_Archive :: bool
  Source_Content_Path :: string
  Source_Content_Message :: string
  Target_URL :: string
  Target_Token :: string
  Target_Organization :: string
  Target_Instance :: "Client option"
  Git_ClonePath :: string
  Git_RemoteName :: string
  Git_CrtFile :: string
  Git_Author :: string
  Git_Email :: string

text \<open>The zero value \<^verbatim>\<open>&Configuration{}\<close>.\<close>

definition Configuration_zero :: Configuration where
  "Configuration_zero =
     \<lparr>Source_URL = [], Source_Token = [], Source_Organization = [], Source_Instance = None,
      Source_Ignore = [], Source_Archive = False, Source_Content_Path = [],
      Source_Content_Message = [], Target_URL = [], Target_Token = [],
      Target_Organization = [], Target_Instance = None, Git_ClonePath = [],
      Git_RemoteName = [], Git_CrtFile = [], Git_Author = [], Git_Email = []\<rparr>"

text \<open>Handles of go-git: the SSH credential and the cloned repository.\<close>

type_synonym AuthMethod = nat
type_synonym GitRepository = nat

subsection \<open>What a run does: its trace\<close>

text \<open>
  Everything a run does that can be seen from outside is an event: a log entry (level,
  message, fields) or a call of a library, with its arguments and what it answered.
  The trace of a run is the list of its events, oldest first.
\<close>

datatype Level = InfoLevel | WarnLevel | ErrorLevel | FatalLevel

datatype field = FString string | FInt int | FStrings "string list"

datatype event =
    Log Level string "(string \<times> field) list"
  | ReadFile_call string "error + string"
  | List_call Client string ListOptions "error + Repository list \<times> Response"
  | Create_call Client string Repository "error + Repository"
  | GetContents_call Client string string string "error + RepositoryContent option"
  | UpdateFile_call Client string string string RepositoryContentFileOptions "error option"
  | Edit_call Client string string Repository "error option"
  | NewPublicKeysFromFile_call string string string "error + AuthMethod"
  | PlainClone_call string bool string AuthMethod "error + GitRepository"
  | CreateRemote_call GitRepository string "string list" "error option"
  | Push_call GitRepository string AuthMethod "error option"

text \<open>
  The libraries and the world behind them. A function that reaches the outside (the file
  system, a GitHub endpoint, git over SSH) takes the trace so far, so that its answer may
  depend on everything that happened before: a remote with state is covered. The
  constructors of clients, the YAML parser and the base64 decoder are pure.
  \<^verbatim>\<open>yaml.Unmarshal\<close> fills the configuration it is given and returns its error.
  \<^verbatim>\<open>GetContents\<close> answers with an error, with the content of a file, or, for a path that
  names a directory, with no file content and no error (\<open>Inr None\<close>).
\<close>

record env =
  ioutil_ReadFile :: "event list \<Rightarrow> string \<Rightarrow> error + string"
  yaml_Unmarshal :: "string \<Rightarrow> Configuration \<Rightarrow> Configuration \<times> error option"
  gh_NewClient :: "string \<Rightarrow> Client"
  gh_NewEnterpriseClient :: "string \<Rightarrow> string \<Rightarrow> string \<Rightarrow> error + Client"
  Repositories_List ::
    "event list \<Rightarrow> Client \<Rightarrow> string \<Rightarrow> ListOptions \<Rightarrow> error + Repository list \<times> Response"
  Repositories_Create ::
    "event list \<Rightarrow> Client \<Rightarrow> string \<Rightarrow> Repository \<Rightarrow> error + Repository"
  Repositories_GetContents ::
    "event list \<Rightarrow> Client \<Rightarrow> string \<Rightarrow> string \<Rightarrow> string
      \<Rightarrow> error + RepositoryContent option"
  base64_DecodeString :: "string \<Rightarrow> error + string"
  Repositories_UpdateFile ::
    "event list \<Rightarrow> Client \<Rightarrow> string \<Rightarrow> string \<Rightarrow> string \<Rightarrow> RepositoryContentFileOptions
      \<Rightarrow> error option"
  Repositories_Edit ::
    "event list \<Rightarrow> Client \<Rightarrow> string \<Rightarrow> string \<Rightarrow> Repository \<Rightarrow> error option"
  ssh_NewPublicKeysFromFile :: "event list \<Rightarrow> string \<Rightarrow> string \<Rightarrow> string \<Rightarrow> error + AuthMethod"
  git_PlainClone :: "event list \<Rightarrow> string \<Rightarrow> bool \<Rightarrow> string \<Rightarrow> AuthMethod \<Rightarrow> error + GitRepository"
  Repository_CreateRemote ::
    "event list \<Rightarrow> GitRepository \<Rightarrow> string \<Rightarrow> string list \<Rightarrow> error option"
  Repository_Push :: "event list \<Rightarrow> GitRepository \<Rightarrow> string \<Rightarrow> AuthMethod \<Rightarrow> error option"

subsection \<open>How a call ends\<close>

text \<open>
  A call returns to its caller, or the process ends inside it: by \<^verbatim>\<open>log.Fatal\<close>, which
  writes the entry and exits with status 1, or by a nil-pointer panic. Every function
  below takes the trace and returns how it ended with the trace it left.
\<close>

datatype 'a result = Return 'a | Fatal | Panic

definition andThen ::
  "'a result \<times> event list \<Rightarrow> ('a \<Rightarrow> event list \<Rightarrow> 'b result \<times> event list)
    \<Rightarrow> 'b result \<times> event list" where
  "andThen m f =
     (case m of
        (Return x, t) \<Rightarrow> f x t
      | (Fatal, t) \<Rightarrow> (Fatal, t)
      | (Panic, t) \<Rightarrow> (Panic, t))"

text \<open>\<^verbatim>\<open>*p\<close> for a pointer \<open>p\<close>.\<close>

definition deref :: "'a option \<Rightarrow> event list \<Rightarrow> 'a result \<times> event list" where
  "deref p t = (case p of None \<Rightarrow> (Panic, t) | Some v \<Rightarrow> (Return v, t))"

text \<open>\<^verbatim>\<open>log.WithField(...).Info/Warn/Error\<close> write an entry; \<^verbatim>\<open>log.Fatal\<close> also exits.\<close>

definition log_entry :: "Level \<Rightarrow> string \<Rightarrow> (string \<times> field) list \<Rightarrow> event list \<Rightarrow> event list" where
  "log_entry lvl msg fs t = t @ [Log lvl msg fs]"

definition log_Fatal :: "error \<Rightarrow> event list \<Rightarrow> 'a result \<times> event list" where
  "log_Fatal err t = (Fatal, log_entry FatalLevel err [] t)"

text \<open>\<^verbatim>\<open>%d\<close> of \<^verbatim>\<open>fmt.Sprintf\<close> on a number that is not negative.\<close>

definition digit_char :: "nat \<Rightarrow> char" where
  "digit_char d = ''0123456789'' ! d"

fun decimal :: "nat \<Rightarrow> string" where
  "decimal n =
     (if n < 10 then [digit_char n] else decimal (n div 10) @ [digit_char (n mod 10)])"

declare decimal.simps [simp del]

text \<open>
  \<^verbatim>\<open>strings.Replace(s, old, new, n)\<close> of the Go library, for a pattern \<open>old\<close> that is not
  empty: the first \<open>n\<close> occurrences of \<open>old\<close>, found from the left and not overlapping, are
  replaced by \<open>new\<close>; all of them when \<open>n < 0\<close>. (With an empty pattern the library inserts
  \<open>new\<close> around every character; \<^verbatim>\<open>main.go\<close> never asks for that, and the model returns
  \<open>s\<close>.)
\<close>

function strings_Replace :: "string \<Rightarrow> string \<Rightarrow> string \<Rightarrow> int \<Rightarrow> string" where
  "strings_Replace s old new n =
     (if n = 0 \<or> s = [] \<or> old = [] then s
      else if prefix old s
        then new @ strings_Replace (drop (length old) s) old new (n - 1)
      else hd s # strings_Replace (tl s) old new n)"
  by pat_completeness auto
termination
  by (relation "measure (\<lambda>(s, old, new, n). length s)") auto

declare strings_Replace.simps [simp del]

section \<open>Filtering the listing\<close>

text \<open>
  \<^verbatim>\<open>
  func contains(sl []string, v string) bool {
      for _, vv := range sl {
          if vv == v { return true }
      }
      return false
  }
  \<close>
\<close>

fun contains :: "string list \<Rightarrow> string \<Rightarrow> bool" where
  "contains [] v = False"
| "contains (vv # sl) v = (if vv = v then True else contains sl v)"

text \<open>
  The second loop of \<^verbatim>\<open>listRepositoriesByOrg\<close>, with its accumulator \<^verbatim>\<open>allRepos\<close>:
  \<^verbatim>\<open>
  var allRepos []*gh.Repository
  for _, r := range candidates {
      if !contains(cfg.Source.Ignore, *r.Name) {
          allRepos = append(allRepos, r)
      }
  }
  \<close>
  \<^verbatim>\<open>*r.Name\<close> panics on a descriptor without a name.
\<close>

fun filterIgnored ::
  "string list \<Rightarrow> Repository list \<Rightarrow> Repository list \<Rightarrow> Repository list result" where
  "filterIgnored ignore [] allRepos = Return allRepos"
| "filterIgnored ignore (r # candidates) allRepos =
     (case Name r of
        None \<Rightarrow> Panic
      | Some name \<Rightarrow>
          if \<not> contains ignore name
          then filterIgnored ignore candidates (allRepos @ [r])
          else filterIgnored ignore candidates allRepos)"

section \<open>Calls of the libraries\<close>

text \<open>Each call asks the environment, with the trace so far, and records the event.\<close>

definition call_ReadFile :: "env \<Rightarrow> string \<Rightarrow> event list \<Rightarrow> (error + string) \<times> event list" where
  "call_ReadFile E path t =
     (let answer = ioutil_ReadFile E t path in (answer, t @ [ReadFile_call path answer]))"

definition call_List ::
  "env \<Rightarrow> Client \<Rightarrow> string \<Rightarrow> ListOptions \<Rightarrow> event list
    \<Rightarrow> (error + Repository list \<times> Response) \<times> event list" where
  "call_List E client owner opt t =
     (let answer = Repositories_List E t client owner opt
      in (answer, t @ [List_call client owner opt answer]))"

definition call_Create ::
  "env \<Rightarrow> Client \<Rightarrow> string \<Rightarrow> Repository \<Rightarrow> event list \<Rightarrow> (error + Repository) \<times> event list" where
  "call_Create E client org repo t =
     (let answer = Repositories_Create E t client org repo
      in (answer, t @ [Create_call client org repo answer]))"

definition call_GetContents ::
  "env \<Rightarrow> Client \<Rightarrow> string \<Rightarrow> string \<Rightarrow> string \<Rightarrow> event list
    \<Rightarrow> (error + RepositoryContent option) \<times> event list" where
  "call_GetContents E client owner repo path t =
     (let answer = Repositories_GetContents E t client owner repo path
      in (answer, t @ [GetContents_call client owner repo path answer]))"

definition call_UpdateFile ::
  "env \<Rightarrow> Client \<Rightarrow> string \<Rightarrow> string \<Rightarrow> string \<Rightarrow> RepositoryContentFileOptions \<Rightarrow> event list
    \<Rightarrow> error option \<times> event list" where
  "call_UpdateFile E client owner repo path opt t =
     (let answer = Repositories_UpdateFile E t client owner repo path opt
      in (answer, t @ [UpdateFile_call client owner repo path opt answer]))"

definition call_Edit ::
  "env \<Rightarrow> Client \<Rightarrow> string \<Rightarrow> string \<Rightarrow> Repository \<Rightarrow> event list \<Rightarrow> error option \<times> event list" where
  "call_Edit E client owner repo opt t =
     (let answer = Repositories_Edit E t client owner repo opt
      in (answer, t @ [Edit_call client owner repo opt answer]))"

definition call_NewPublicKeysFromFile ::
  "env \<Rightarrow> string \<Rightarrow> string \<Rightarrow> string \<Rightarrow> event list \<Rightarrow> (error + AuthMethod) \<times> event list" where
  "call_NewPublicKeysFromFile E user pemFile password t =
     (let answer = ssh_NewPublicKeysFromFile E t user pemFile password
      in (answer, t @ [NewPublicKeysFromFile_call user pemFile password answer]))"

definition call_PlainClone ::
  "env \<Rightarrow> string \<Rightarrow> bool \<Rightarrow> string \<Rightarrow> AuthMethod \<Rightarrow> event list
    \<Rightarrow> (error + GitRepository) \<times> event list" where
  "call_PlainClone E path isBare url auth t =
     (let answer = git_PlainClone E t path isBare url auth
      in (answer, t @ [PlainClone_call path isBare url auth answer]))"

definition call_CreateRemote ::
  "env \<Rightarrow> GitRepository \<Rightarrow> string \<Rightarrow> string list \<Rightarrow> event list \<Rightarrow> error option \<times> event list" where
  "call_CreateRemote E g name urls t =
     (let answer = Repository_CreateRemote E t g name urls
      in (answer, t @ [CreateRemote_call g name urls answer]))"

definition call_Push ::
  "env \<Rightarrow> GitRepository \<Rightarrow> string \<Rightarrow> AuthMethod \<Rightarrow> event list \<Rightarrow> error option \<times> event list" where
  "call_Push E g remoteName auth t =
     (let answer = Repository_Push E t g remoteName auth
      in (answer, t @ [Push_call g remoteName auth answer]))"

section \<open>Configuration and clients\<close>

definition fileName :: string where
  "fileName = ''config.yml''"

text \<open>\<^verbatim>\<open>fmt.Sprintf(commitMessage, path)\<close> with \<^verbatim>\<open>commitMessage = "updated %s"\<close>.\<close>

definition commitMessage :: "string \<Rightarrow> string" where
  "commitMessage path = ''updated '' @ path"

text \<open>
  \<^verbatim>\<open>
  func loadConfiguration(configPath string) (*Configuration, error) {
      content, err := ioutil.ReadFile(configPath)
      if err != nil { return nil, err }
      c := &Configuration{}
      yaml.Unmarshal(content, c)
      return c, nil
  }
  \<close>
  The error \<^verbatim>\<open>yaml.Unmarshal\<close> returns is not looked at.
\<close>

definition loadConfiguration ::
  "env \<Rightarrow> string \<Rightarrow> event list \<Rightarrow> (error + Configuration) \<times> event list" where
  "loadConfiguration E configPath t =
     (case call_ReadFile E configPath t of
        (Inl err, t) \<Rightarrow> (Inl err, t)
      | (Inr content, t) \<Rightarrow>
          (let c = fst (yaml_Unmarshal E content Configuration_zero)
           in (Inr c, t)))"

text \<open>
  \<^verbatim>\<open>newGithubClient(token, URL)\<close>: the public client when \<^verbatim>\<open>URL == ""\<close>, else
  \<^verbatim>\<open>gh.NewEnterpriseClient(URL, URL, tc)\<close>, whose error is fatal.
\<close>

definition newGithubClient ::
  "env \<Rightarrow> string \<Rightarrow> string \<Rightarrow> event list \<Rightarrow> Client result \<times> event list" where
  "newGithubClient E token url t =
     (if url = [] then (Return (gh_NewClient E token), t)
      else
        (case gh_NewEnterpriseClient E url url token of
           Inl err \<Rightarrow> log_Fatal err t
         | Inr c \<Rightarrow> (Return c, t)))"

section \<open>Listing the source organization\<close>

text \<open>
  The first loop of \<^verbatim>\<open>listRepositoriesByOrg\<close>:
  \<^verbatim>\<open>
  opts := &gh.RepositoryListByOrgOptions{ListOptions: gh.ListOptions{PerPage: 30}}
  var candidates []*gh.Repository
  for {
      repos, resp, err := source.Instance.Repositories.List(context.Background(),
          source.Organization, &gh.RepositoryListOptions{})
      if err != nil { return nil, err }
      candidates = append(candidates, repos...)
      if resp.NextPage == 0 { break }
      opts.Page = resp.NextPage
  }
  \<close>
  Every request carries a fresh, empty \<^verbatim>\<open>gh.RepositoryListOptions\<close>; \<open>opts\<close> is updated
  and never sent. The loop has no bound, so it is a partial function: \<open>None\<close> is a loop
  that never ends.
\<close>

definition RepositoryListOptions_zero :: ListOptions where
  "RepositoryListOptions_zero = \<lparr>Page = 0, PerPage = 0\<rparr>"

partial_function (option) listPages ::
  "env \<Rightarrow> Client \<Rightarrow> string \<Rightarrow> ListOptions \<Rightarrow> Repository list \<Rightarrow> event list
    \<Rightarrow> ((error + Repository list) \<times> event list) option" where
  "listPages E client org opts candidates t =
     (case call_List E client org RepositoryListOptions_zero t of
        (Inl err, t) \<Rightarrow> Some (Inl err, t)
      | (Inr (repos, resp), t) \<Rightarrow>
          if NextPage resp = 0 then Some (Inr (candidates @ repos), t)
          else listPages E client org (opts\<lparr>Page := NextPage resp\<rparr>) (candidates @ repos) t)"

declare listPages.simps [code]

text \<open>An answer that ends the loop: an error, or a page that names no next page.\<close>

definition stops_listing :: "error + Repository list \<times> Response \<Rightarrow> bool" where
  "stops_listing answer =
     (case answer of Inl err \<Rightarrow> True | Inr (repos, resp) \<Rightarrow> NextPage resp = 0)"

definition listRepositoriesByOrg ::
  "env \<Rightarrow> Configuration \<Rightarrow> event list
    \<Rightarrow> ((error + Repository list) result \<times> event list) option" where
  "listRepositoriesByOrg E cfg t =
     (let opts = \<lparr>Page = 0, PerPage = 30\<rparr> in
      case Source_Instance cfg of
        None \<Rightarrow> Some (Panic, t)
      | Some client \<Rightarrow>
          (case listPages E client (Source_Organization cfg) opts [] t of
             None \<Rightarrow> None
           | Some (Inl err, t) \<Rightarrow> Some (Return (Inl err), t)
           | Some (Inr candidates, t) \<Rightarrow>
               (case filterIgnored (Source_Ignore cfg) candidates [] of
                  Return allRepos \<Rightarrow> Some (Return (Inr allRepos), t)
                | Fatal \<Rightarrow> Some (Fatal, t)
                | Panic \<Rightarrow> Some (Panic, t))))"

section \<open>The steps of a migration\<close>

definition Repository_zero :: Repository where
  "Repository_zero =
     \<lparr>Name = None, Description = None, Homepage = None, Private = None, HasIssues = None,
      HasProjects = None, HasWiki = None, AllowRebaseMerge = None, AllowSquashMerge = None,
      Archived = None, SSHURL = None, HTMLURL = None, URL = None\<rparr>"

text \<open>
  \<^verbatim>\<open>
  func createRepo(cfg *Configuration, repo *gh.Repository) (*gh.Repository, error) {
      opts := &gh.Repository{
          Name: repo.Name, Description: repo.Description, Homepage: repo.Homepage,
          Private: repo.Private,
          HasIssues: gh.Bool(false), HasProjects: gh.Bool(false), HasWiki: gh.Bool(false),
          AllowRebaseMerge: gh.Bool(false), AllowSquashMerge: gh.Bool(false),
      }
      r, _, err := cfg.Target.Instance.Repositories.Create(ctx, cfg.Target.Organization, opts)
      if err != nil { return nil, err }
      log.WithField("url", *r.URL).Info("a new repository was created successfully")
      return r, nil
  }
  \<close>
\<close>

definition createRepo ::
  "env \<Rightarrow> Configuration \<Rightarrow> Repository \<Rightarrow> event list
    \<Rightarrow> (error + Repository) result \<times> event list" where
  "createRepo E cfg repo t =
     (let opts = Repository_zero
            \<lparr>Name := Name repo,
             Description := Description repo,
             Homepage := Homepage repo,
             Private := Private repo,
             HasIssues := Some False,
             HasProjects := Some False,
             HasWiki := Some False,
             AllowRebaseMerge := Some False,
             AllowSquashMerge := Some False\<rparr>
      in
      andThen (deref (Target_Instance cfg) t) (\<lambda>client t.
      case call_Create E client (Target_Organization cfg) opts t of
        (Inl err, t) \<Rightarrow> (Return (Inl err), t)
      | (Inr r, t) \<Rightarrow>
          andThen (deref (URL r) t) (\<lambda>url t.
          let t = log_entry InfoLevel ''a new repository was created successfully''
                    [(''url'', FString url)] t
          in (Return (Inr r), t))))"

text \<open>
  \<^verbatim>\<open>cloneAndPush(cfg, source, targetURL)\<close>: load the key, clone the source bare into
  \<^verbatim>\<open>ClonePath/Name\<close>, add the remote, push. The first error is returned; nothing is
  retried.
\<close>

definition cloneAndPush ::
  "env \<Rightarrow> Configuration \<Rightarrow> Repository \<Rightarrow> string \<Rightarrow> event list
    \<Rightarrow> error option result \<times> event list" where
  "cloneAndPush E cfg source targetURL t =
     (let t = log_entry InfoLevel ''using the public key...''
                [(''file'', FString (Git_CrtFile cfg))] t
      in
      case call_NewPublicKeysFromFile E ''git'' (Git_CrtFile cfg) [] t of
        (Inl err, t) \<Rightarrow> (Return (Some err), t)
      | (Inr auth, t) \<Rightarrow>
          andThen (deref (SSHURL source) t) (\<lambda>url t.
          let t = log_entry InfoLevel ''cloning the repository...'' [(''url'', FString url)] t
          in
          andThen (deref (Name source) t) (\<lambda>name t.
          case call_PlainClone E (Git_ClonePath cfg @ ''/'' @ name) True url auth t of
            (Inl err, t) \<Rightarrow> (Return (Some err), t)
          | (Inr g, t) \<Rightarrow>
              (let t = log_entry InfoLevel ''adding a new remote...''
                         [(''remote'', FString targetURL)] t
               in
               case call_CreateRemote E g (Git_RemoteName cfg) [targetURL] t of
                 (Some err, t) \<Rightarrow> (Return (Some err), t)
               | (None, t) \<Rightarrow>
                   (let t = log_entry InfoLevel ''pushing to the new remote...''
                              [(''remote'', FString targetURL)] t
                    in
                    case call_Push E g (Git_RemoteName cfg) auth t of
                      (Some err, t) \<Rightarrow> (Return (Some err), t)
                    | (None, t) \<Rightarrow> (Return None, t))))))"

text \<open>
  The two methods of \<^verbatim>\<open>*gh.RepositoryContent\<close> that \<^verbatim>\<open>updateContent\<close> calls, as go-github
  has them:
  \<^verbatim>\<open>
  func (r *RepositoryContent) GetContent() (string, error) {
      var encoding string
      if r.Encoding != nil { encoding = *r.Encoding }
      switch encoding {
      case "base64":
          c, err := base64.StdEncoding.DecodeString(*r.Content)
          return string(c), err
      case "":
          if r.Content == nil { return "", nil }
          return *r.Content, nil
      default:
          return "", fmt.Errorf("unsupported content encoding: %v", encoding)
      }
  }
  \<close>
  \<^verbatim>\<open>GetContent\<close> panics on a \<^verbatim>\<open>nil\<close> receiver (the path named a directory) and on
  base64 content that is missing. \<^verbatim>\<open>GetSHA\<close> gives the empty string for a missing SHA.
\<close>

definition GetContent :: "env \<Rightarrow> RepositoryContent option \<Rightarrow> (error + string) result" where
  "GetContent E c =
     (case c of
        None \<Rightarrow> Panic
      | Some r \<Rightarrow>
          (let encoding = (case Encoding r of None \<Rightarrow> [] | Some e \<Rightarrow> e) in
           if encoding = ''base64'' then
             (case EncodedContent r of
                None \<Rightarrow> Panic
              | Some text \<Rightarrow> Return (base64_DecodeString E text))
           else if encoding = [] then
             (case EncodedContent r of
                None \<Rightarrow> Return (Inr [])
              | Some text \<Rightarrow> Return (Inr text))
           else Return (Inl (''unsupported content encoding: '' @ encoding))))"

definition GetSHA :: "RepositoryContent option \<Rightarrow> string" where
  "GetSHA c =
     (case c of
        None \<Rightarrow> []
      | Some r \<Rightarrow> (case ContentSHA r of None \<Rightarrow> [] | Some sha \<Rightarrow> sha))"

text \<open>
  \<^verbatim>\<open>
  func updateContent(cfg *Configuration, repo *gh.Repository) error {
      c, _, _, err := source.Instance.Repositories.GetContents(ctx, source.Organization,
          *repo.Name, source.Content.Path, &gh.RepositoryContentGetOptions{})
      if err != nil { return err }
      content, err := c.GetContent()
      if err != nil { return err }
      log.WithField("filename", source.Content.Path).Info("updating the content...")
      newMessage := strings.Replace(source.Content.Message, "{{url}}", *repo.HTMLURL, -1)
      repositoryContentsOptions := &gh.RepositoryContentFileOptions{
          Message:   gh.String(fmt.Sprintf(commitMessage, source.Content.Path)),
          Content:   []byte(fmt.Sprintf("%s<br><br>%s", newMessage, content)),
          SHA:       gh.String(c.GetSHA()),
          Committer: &gh.CommitAuthor{Name: gh.String(cfg.Git.Author),
                                      Email: gh.String(cfg.Git.Email)},
      }
      _, _, err = source.Instance.Repositories.UpdateFile(ctx, source.Organization,
          *repo.Name, source.Content.Path, repositoryContentsOptions)
      if err != nil { log.Fatal(err) }
      return nil
  }
  \<close>
  The first two errors are returned; the error of \<^verbatim>\<open>UpdateFile\<close> goes to \<^verbatim>\<open>log.Fatal\<close>.
  The process panics on a descriptor without name or HTML URL, and inside
  \<^verbatim>\<open>c.GetContent()\<close>.
\<close>

definition updateContent ::
  "env \<Rightarrow> Configuration \<Rightarrow> Repository \<Rightarrow> event list \<Rightarrow> error option result \<times> event list" where
  "updateContent E cfg repo t =
     andThen (deref (Source_Instance cfg) t) (\<lambda>client t.
     andThen (deref (Name repo) t) (\<lambda>name t.
     case call_GetContents E client (Source_Organization cfg) name (Source_Content_Path cfg) t of
       (Inl err, t) \<Rightarrow> (Return (Some err), t)
     | (Inr c, t) \<Rightarrow>
         andThen (GetContent E c, t) (\<lambda>decoded t.
         case decoded of
            Inl err \<Rightarrow> (Return (Some err), t)
          | Inr content \<Rightarrow>
              (let t = log_entry InfoLevel ''updating the content...''
                         [(''filename'', FString (Source_Content_Path cfg))] t
               in
               andThen (deref (HTMLURL repo) t) (\<lambda>htmlurl t.
               let newMessage =
                     strings_Replace (Source_Content_Message cfg) ''{{url}}'' htmlurl (- 1);
                   repositoryContentsOptions =
                     \<lparr>Message = Some (commitMessage (Source_Content_Path cfg)),
                      Content = newMessage @ ''<br><br>'' @ content,
                      SHA = Some (GetSHA c),
                      Committer = Some \<lparr>AuthorName = Some (Git_Author cfg),
                                         AuthorEmail = Some (Git_Email cfg)\<rparr>\<rparr>
               in
               case call_UpdateFile E client (Source_Organization cfg) name
                      (Source_Content_Path cfg) repositoryContentsOptions t of
                 (Some err, t) \<Rightarrow> log_Fatal err t
               | (None, t) \<Rightarrow> (Return None, t))))))"

text \<open>
  \<^verbatim>\<open>
  func archiveRepo(cfg *Configuration, repo *gh.Repository) error {
      opts := &gh.Repository{Archived: gh.Bool(true)}
      log.WithField("name", *repo.Name).Info("archiving the repository...")
      _, _, err := source.Instance.Repositories.Edit(ctx, source.Organization, *repo.Name, opts)
      if err != nil { return err }
      return nil
  }
  \<close>
\<close>

definition archiveRepo ::
  "env \<Rightarrow> Configuration \<Rightarrow> Repository \<Rightarrow> event list \<Rightarrow> error option result \<times> event list" where
  "archiveRepo E cfg repo t =
     (let opts = Repository_zero\<lparr>Archived := Some True\<rparr> in
      andThen (deref (Name repo) t) (\<lambda>name t.
      let t = log_entry InfoLevel ''archiving the repository...'' [(''name'', FString name)] t
      in
      andThen (deref (Source_Instance cfg) t) (\<lambda>client t.
      case call_Edit E client (Source_Organization cfg) name opts t of
        (Some err, t) \<Rightarrow> (Return (Some err), t)
      | (None, t) \<Rightarrow> (Return None, t))))"

section \<open>The orchestrator\<close>

text \<open>
  The two optional steps at the end of the loop body of \<^verbatim>\<open>main\<close>:
  \<^verbatim>\<open>
  if cfg.Source.Content.Path != "" {
      err := updateContent(cfg, r)
      if err != nil { log.Error(err) }
  }
  if cfg.Source.Archive {
      archiveRepo(cfg, repo)
      if err != nil { log.Error(err) }
  }
  \<close>
  In the first block \<^verbatim>\<open>err :=\<close> declares a new variable. In the second the result of
  \<^verbatim>\<open>archiveRepo\<close> is dropped, and \<^verbatim>\<open>err\<close> is the variable of the loop body, last assigned
  by \<^verbatim>\<open>cloneAndPush\<close>: it is the argument \<open>err\<close> of \<open>archiveStep\<close>.
\<close>

definition contentStep ::
  "env \<Rightarrow> Configuration \<Rightarrow> Repository \<Rightarrow> event list \<Rightarrow> unit result \<times> event list" where
  "contentStep E cfg r t =
     (if Source_Content_Path cfg \<noteq> [] then
        andThen (updateContent E cfg r t) (\<lambda>err t.
        case err of
          Some e \<Rightarrow> (Return (), log_entry ErrorLevel e [] t)
        | None \<Rightarrow> (Return (), t))
      else (Return (), t))"

definition archiveStep ::
  "env \<Rightarrow> Configuration \<Rightarrow> Repository \<Rightarrow> error option \<Rightarrow> event list
    \<Rightarrow> unit result \<times> event list" where
  "archiveStep E cfg repo err t =
     (if Source_Archive cfg then
        andThen (archiveRepo E cfg repo t) (\<lambda>dropped t.
        case err of
          Some e \<Rightarrow> (Return (), log_entry ErrorLevel e [] t)
        | None \<Rightarrow> (Return (), t))
      else (Return (), t))"

text \<open>
  The body of \<^verbatim>\<open>for i, repo := range repos\<close>, for the candidate \<open>repo\<close> at index \<open>i\<close> of
  \<open>n\<close>. It ends with \<^verbatim>\<open>continue\<close> after a failed \<^verbatim>\<open>createRepo\<close> or \<^verbatim>\<open>cloneAndPush\<close>, and
  with \<^verbatim>\<open>break\<close> at its last line.
\<close>

text \<open>The message of the last entry of the loop body.\<close>

definition done_line :: string where
  "done_line =
     ''done =-=-=-=-=-=-=-=-=-=-=-=-=-=-=-=-=-=-=-=-=-=-=-=-=-=-=-=-=-=-=-=-=-=-=-''"

datatype control = Continue | Break

definition loopBody ::
  "env \<Rightarrow> Configuration \<Rightarrow> nat \<Rightarrow> nat \<Rightarrow> Repository \<Rightarrow> event list
    \<Rightarrow> control result \<times> event list" where
  "loopBody E cfg i n repo t =
     andThen (deref (Name repo) t) (\<lambda>name t.
     let t = log_entry InfoLevel ''processing a repository''
               [(''name'', FString name),
                (''index'', FString (decimal (i + 1) @ ''/'' @ decimal n))] t
     in
     andThen (createRepo E cfg repo t) (\<lambda>created t.
     case created of
       Inl err \<Rightarrow> (Return Continue, log_entry ErrorLevel err [] t)
     | Inr r \<Rightarrow>
         andThen (deref (SSHURL r) t) (\<lambda>targetURL t.
         andThen (cloneAndPush E cfg repo targetURL t) (\<lambda>err t.
         case err of
           Some e \<Rightarrow> (Return Continue, log_entry ErrorLevel e [] t)
         | None \<Rightarrow>
             andThen (contentStep E cfg r t) (\<lambda>_ t.
             andThen (archiveStep E cfg repo err t) (\<lambda>_ t.
             let t = log_entry InfoLevel done_line [] t
             in (Return Break, t)))))))"

fun migrateAll ::
  "env \<Rightarrow> Configuration \<Rightarrow> nat \<Rightarrow> nat \<Rightarrow> Repository list \<Rightarrow> event list
    \<Rightarrow> unit result \<times> event list" where
  "migrateAll E cfg i n [] t = (Return (), t)"
| "migrateAll E cfg i n (repo # rest) t =
     andThen (loopBody E cfg i n repo t) (\<lambda>ctl t.
     case ctl of
       Continue \<Rightarrow> migrateAll E cfg (i + 1) n rest t
     | Break \<Rightarrow> (Return (), t))"

text \<open>
  \<^verbatim>\<open>main\<close>: load the configuration (fatal on error), build the two clients, list the
  source (fatal on error), run the loop. \<open>None\<close> is a run that never ends.
\<close>

definition connect ::
  "env \<Rightarrow> Configuration \<Rightarrow> event list \<Rightarrow> Configuration result \<times> event list" where
  "connect E cfg t =
     andThen (newGithubClient E (Source_Token cfg) (Source_URL cfg) t) (\<lambda>source t.
     andThen (newGithubClient E (Target_Token cfg) (Target_URL cfg) t) (\<lambda>target t.
     let cfg = cfg\<lparr>Source_Instance := Some source, Target_Instance := Some target\<rparr>;
         t = log_entry WarnLevel ''source github'' [(''url'', FString (Source_URL cfg))] t;
         t = log_entry WarnLevel ''target github'' [(''url'', FString (Target_URL cfg))] t
     in (Return cfg, t)))"

definition main :: "env \<Rightarrow> (unit result \<times> event list) option" where
  "main E =
     (case loadConfiguration E fileName [] of
        (Inl err, t) \<Rightarrow> Some (log_Fatal err t)
      | (Inr cfg, t) \<Rightarrow>
          (case connect E cfg t of
             (Fatal, t) \<Rightarrow> Some (Fatal, t)
           | (Panic, t) \<Rightarrow> Some (Panic, t)
           | (Return cfg, t) \<Rightarrow>
               (case listRepositoriesByOrg E cfg t of
                  None \<Rightarrow> None
                | Some (Fatal, t) \<Rightarrow> Some (Fatal, t)
                | Some (Panic, t) \<Rightarrow> Some (Panic, t)
                | Some (Return (Inl err), t) \<Rightarrow> Some (log_Fatal err t)
                | Some (Return (Inr repos), t) \<Rightarrow>
                    (let t = log_entry InfoLevel ''some repositories was found''
                               [(''amount'', FInt (int (length repos)))] t;
                         t = log_entry InfoLevel ''ignoring some repositories''
                               [(''names'', FStrings (Source_Ignore cfg))] t
                     in Some (migrateAll E cfg 0 (length repos) repos t)))))"


section \<open>A concrete world\<close>

text \<open>
  The scenario of the specification: a source organization with the repositories \<open>a\<close> and
  \<open>b\<close> on one page, \<open>b\<close> ignored, the notice written to \<^verbatim>\<open>README.md\<close>, the source
  archived. In \<open>example_env\<close> every call succeeds; the other worlds differ from it in one
  answer each. The files of this world come as plain text, so its base64 decoder is never
  asked.
\<close>

definition example_cfg :: Configuration where
  "example_cfg =
     Configuration_zero
       \<lparr>Source_Token := ''s3cr3t'',
        Source_Organization := ''old'',
        Source_Ignore := [''b''],
        Source_Archive := True,
        Source_Content_Path := ''README.md'',
        Source_Content_Message := ''Migrated. {{url}}'',
        Target_Token := ''s3cr3t'',
        Target_Organization := ''org'',
        Git_ClonePath := ''/tmp'',
        Git_RemoteName := ''new'',
        Git_CrtFile := ''/id_rsa'',
        Git_Author := ''L'',
        Git_Email := ''l@h''\<rparr>"

definition source_repo :: "string \<Rightarrow> Repository" where
  "source_repo name =
     Repository_zero
       \<lparr>Name := Some name,
        Private := Some True,
        HasIssues := Some True,
        HasWiki := Some True,
        AllowSquashMerge := Some True,
        Archived := Some False,
        SSHURL := Some (''git@s:old/'' @ name),
        HTMLURL := Some (''https://s/old/'' @ name),
        URL := Some (''https://s/api/old/'' @ name)\<rparr>"

definition created_repo :: "Repository \<Rightarrow> Repository" where
  "created_repo opts =
     (case Name opts of
        None \<Rightarrow> opts
      | Some name \<Rightarrow>
          opts\<lparr>SSHURL := Some (''git@h:org/'' @ name),
               HTMLURL := Some (''https://h/org/'' @ name),
               URL := Some (''https://h/api/org/'' @ name)\<rparr>)"

definition example_env :: env where
  "example_env =
     \<lparr>ioutil_ReadFile =
        (\<lambda>t path. if path = ''config.yml'' then Inr ''source: ...'' else Inl ''no such file''),
      yaml_Unmarshal = (\<lambda>content c. (example_cfg, None)),
      gh_NewClient =
        (\<lambda>token. \<lparr>BaseURL = ''https://api.github.com/'',
                   UploadURL = ''https://uploads.github.com/'', AccessToken = token\<rparr>),
      gh_NewEnterpriseClient =
        (\<lambda>base upload token. Inr \<lparr>BaseURL = base, UploadURL = upload, AccessToken = token\<rparr>),
      Repositories_List =
        (\<lambda>t client owner opt. Inr ([source_repo ''a'', source_repo ''b''], \<lparr>NextPage = 0\<rparr>)),
      Repositories_Create = (\<lambda>t client org opts. Inr (created_repo opts)),
      Repositories_GetContents =
        (\<lambda>t client owner repo path.
           Inr (Some \<lparr>Encoding = None, EncodedContent = Some ''# a'',
                      ContentSHA = Some ''abc''\<rparr>)),
      base64_DecodeString = (\<lambda>text. Inl ''illegal base64 data at input byte 0''),
      Repositories_UpdateFile = (\<lambda>t client owner repo path opt. None),
      Repositories_Edit = (\<lambda>t client owner repo opt. None),
      ssh_NewPublicKeysFromFile = (\<lambda>t user pemFile password. Inr 1),
      git_PlainClone = (\<lambda>t path isBare url auth. Inr 1),
      Repository_CreateRemote = (\<lambda>t g name urls. None),
      Repository_Push = (\<lambda>t g remoteName auth. None)\<rparr>"

text \<open>The configuration once \<open>connect\<close> has attached the two clients.\<close>

definition example_client :: Client where
  "example_client =
     \<lparr>BaseURL = ''https://api.github.com/'', UploadURL = ''https://uploads.github.com/'',
      AccessToken = ''s3cr3t''\<rparr>"

definition connected_cfg :: Configuration where
  "connected_cfg =
     example_cfg\<lparr>Source_Instance := Some example_client,
                  Target_Instance := Some example_client\<rparr>"

text \<open>The target refuses to create \<open>a\<close>, and nothing is ignored.\<close>

definition create_fails_env :: env where
  "create_fails_env =
     example_env
       \<lparr>yaml_Unmarshal := (\<lambda>content c. (example_cfg\<lparr>Source_Ignore := []\<rparr>, None)),
        Repositories_Create :=
          (\<lambda>t client org opts.
             if Name opts = Some ''a'' then Inl ''422 name already exists''
             else Inr (created_repo opts))\<rparr>"

text \<open>Nothing is ignored: \<open>a\<close> and \<open>b\<close> are both candidates.\<close>

definition two_candidates_env :: env where
  "two_candidates_env =
     example_env\<lparr>yaml_Unmarshal := (\<lambda>content c. (example_cfg\<lparr>Source_Ignore := []\<rparr>, None))\<rparr>"


text \<open>The push to the new remote is rejected.\<close>

definition push_rejected_env :: env where
  "push_rejected_env =
     example_env\<lparr>Repository_Push := (\<lambda>t g remoteName auth. Some ''push rejected'')\<rparr>"

text \<open>The source refuses the commit of the rewritten file.\<close>

definition commit_rejected_env :: env where
  "commit_rejected_env =
     example_env
       \<lparr>Repositories_UpdateFile := (\<lambda>t client owner repo path opt. Some ''409 Conflict'')\<rparr>"

text \<open>The source refuses to archive.\<close>

definition archive_denied_env :: env where
  "archive_denied_env =
     example_env\<lparr>Repositories_Edit := (\<lambda>t client owner repo opt. Some ''403 Forbidden'')\<rparr>"

text \<open>\<^verbatim>\<open>config.yml\<close> is there and is not YAML: the parser fills nothing and returns an error.\<close>

definition malformed_env :: env where
  "malformed_env =
     example_env
       \<lparr>ioutil_ReadFile :=
          (\<lambda>t path. if path = ''config.yml'' then Inr ''source: ['' else Inl ''no such file''),
        yaml_Unmarshal := (\<lambda>content c. (c, Some ''yaml: did not find expected node content''))\<rparr>"

text \<open>
  The listing has two pages, \<open>[a]\<close> and \<open>[b]\<close>: a request for page 2 gets the second, any
  other request the first, which names page 2 as the next.
\<close>

definition two_pages_env :: env where
  "two_pages_env =
     example_env
       \<lparr>Repositories_List :=
          (\<lambda>t client owner opt.
             if Page opt = 2 then Inr ([source_repo ''b''], \<lparr>NextPage = 0\<rparr>)
             else Inr ([source_repo ''a''], \<lparr>NextPage = 2\<rparr>))\<rparr>"

section \<open>Reading a trace\<close>

text \<open>The trace a run left; a run that never ends leaves none to look at.\<close>

definition final_trace :: "('a \<times> event list) option \<Rightarrow> event list" where
  "final_trace run = (case run of None \<Rightarrow> [] | Some (r, t) \<Rightarrow> t)"

text \<open>The first line of the loop body: one such entry for each run of the body.\<close>

fun body_started :: "event \<Rightarrow> bool" where
  "body_started (Log lvl msg fs) = (lvl = InfoLevel \<and> msg = ''processing a repository'')"
| "body_started _ = False"

definition bodyRuns :: "event list \<Rightarrow> nat" where
  "bodyRuns t = length (filter body_started t)"

fun push_succeeded :: "event \<Rightarrow> bool" where
  "push_succeeded (Push_call g remoteName auth None) = True"
| "push_succeeded _ = False"

text \<open>Calls that create a target repository or move git history.\<close>

fun migration_call :: "event \<Rightarrow> bool" where
  "migration_call (Create_call client org repo answer) = True"
| "migration_call (NewPublicKeysFromFile_call user pemFile password answer) = True"
| "migration_call (PlainClone_call path isBare url auth answer) = True"
| "migration_call (CreateRemote_call g name urls answer) = True"
| "migration_call (Push_call g remoteName auth answer) = True"
| "migration_call _ = False"

text \<open>Calls of the content update and of the archive step, all on the source.\<close>

fun content_call :: "event \<Rightarrow> bool" where
  "content_call (GetContents_call client owner repo path answer) = True"
| "content_call (UpdateFile_call client owner repo path opt answer) = True"
| "content_call _ = False"

fun fetch_call :: "event \<Rightarrow> bool" where
  "fetch_call (GetContents_call client owner repo path answer) = True"
| "fetch_call _ = False"

fun update_call :: "event \<Rightarrow> bool" where
  "update_call (UpdateFile_call client owner repo path opt answer) = True"
| "update_call _ = False"

fun archive_call :: "event \<Rightarrow> bool" where
  "archive_call (Edit_call client owner repo opt answer) = True"
| "archive_call _ = False"

fun error_entry :: "event \<Rightarrow> bool" where
  "error_entry (Log lvl msg fs) = (lvl = ErrorLevel)"
| "error_entry _ = False"

text \<open>The requests sent to the target to create a repository, and the file bodies sent.\<close>

text \<open>
  What may follow a successful push in a run that migrates one repository and stops: log
  entries that do not open a new run of the loop body, and the calls of the two optional
  steps, at most one fetch, one commit and one edit.
\<close>

fun closing_event :: "event \<Rightarrow> bool" where
  "closing_event (Log lvl msg fs) = (\<not> body_started (Log lvl msg fs))"
| "closing_event (GetContents_call client owner repo path answer) = True"
| "closing_event (UpdateFile_call client owner repo path opt answer) = True"
| "closing_event (Edit_call client owner repo opt answer) = True"
| "closing_event _ = False"

definition closing :: "event list \<Rightarrow> bool" where
  "closing es =
     (list_all closing_event es \<and>
      length (filter fetch_call es) \<le> 1 \<and>
      length (filter update_call es) \<le> 1 \<and>
      length (filter archive_call es) \<le> 1)"

text \<open>
  What \<^verbatim>\<open>createRepo\<close> and \<^verbatim>\<open>cloneAndPush\<close> leave in the trace before a push succeeds:
  their informational entries and their calls on the target and on git.
\<close>

fun opening_event :: "event \<Rightarrow> bool" where
  "opening_event (Log lvl msg fs) = (lvl = InfoLevel \<and> msg \<noteq> ''processing a repository'')"
| "opening_event (Create_call client org repo answer) = True"
| "opening_event (NewPublicKeysFromFile_call user pemFile password answer) = True"
| "opening_event (PlainClone_call path isBare url auth answer) = True"
| "opening_event (CreateRemote_call g name urls answer) = True"
| "opening_event (Push_call g remoteName auth answer) = (answer \<noteq> None)"
| "opening_event _ = False"


text \<open>
  The events of the content step (at most one fetch and one commit, no edit) and of the
  archive step (at most one edit).
\<close>

definition content_events :: "event list \<Rightarrow> bool" where
  "content_events es =
     (list_all closing_event es \<and> length (filter fetch_call es) \<le> 1 \<and>
      length (filter update_call es) \<le> 1 \<and> filter archive_call es = [])"

definition archive_events :: "event list \<Rightarrow> bool" where
  "archive_events es =
     (list_all closing_event es \<and> filter fetch_call es = [] \<and>
      filter update_call es = [] \<and> length (filter archive_call es) \<le> 1)"









fun create_request :: "event \<Rightarrow> Repository option" where
  "create_request (Create_call client org repo answer) = Some repo"
| "create_request _ = None"

fun sent_content :: "event \<Rightarrow> string option" where
  "sent_content (UpdateFile_call client owner repo path opt answer) = Some (Content opt)"
| "sent_content _ = None"

section \<open>Properties of the filter\<close>

lemma contains_iff: "contains sl v \<longleftrightarrow> v \<in> set sl"
  by (induction sl) auto

lemma filterIgnored_acc:
  "list_all (\<lambda>r. Name r \<noteq> None) L \<Longrightarrow>
   filterIgnored I L acc = Return (acc @ filter (\<lambda>r. Name r \<notin> Some ` set I) L)"
proof (induction L arbitrary: acc)
  case Nil
  then show ?case by simp
next
  case (Cons r L)
  then obtain name where n: "Name r = Some name" by auto
  from Cons.prems have rest: "list_all (\<lambda>r. Name r \<noteq> None) L" by simp
  show ?case
    using Cons.IH [OF rest] n by (auto simp: contains_iff)
qed

text \<open>
  C7. For every ignore list \<open>I\<close> and every listing \<open>L\<close> of named repositories, the filtering
  loop returns exactly the sublist of \<open>L\<close> of the repositories whose name is not in \<open>I\<close>
  (compared as whole strings), in the order of \<open>L\<close>: no repository named in \<open>I\<close> is in the
  result, and every other repository of \<open>L\<close> is.
\<close>

theorem filterIgnored_exact:
  assumes "list_all (\<lambda>r. Name r \<noteq> None) L"
  shows "filterIgnored I L [] = Return (filter (\<lambda>r. Name r \<notin> Some ` set I) L)"
  using filterIgnored_acc [OF assms, of I "[]"] by simp

theorem filterIgnored_exact_witness:
  "list_all (\<lambda>r. Name r \<noteq> None) [source_repo ''a'', source_repo ''b'', source_repo ''c''] \<and>
   filterIgnored [''b'', ''x''] [source_repo ''a'', source_repo ''b'', source_repo ''c''] [] =
     Return [source_repo ''a'', source_repo ''c'']"
proof -
  have named: "list_all (\<lambda>r. Name r \<noteq> None)
      [source_repo ''a'', source_repo ''b'', source_repo ''c'']"
    by (simp add: source_repo_def)
  show ?thesis
    using named filterIgnored_exact [OF named, of "[''b'', ''x'']"]
    by (simp add: source_repo_def)
qed

section \<open>Stepping through the model\<close>

lemma andThen_simps [simp]:
  "andThen (Return x, t) f = f x t"
  "andThen (Fatal, t) f = (Fatal, t)"
  "andThen (Panic, t) f = (Panic, t)"
  by (simp_all add: andThen_def)

lemma deref_simps [simp]:
  "deref None t = (Panic, t)"
  "deref (Some v) t = (Return v, t)"
  by (simp_all add: deref_def)

section \<open>The listing loop\<close>

text \<open>
  If the loop returns, some request was answered with an error or with a last page. Every
  request is the same empty \<^verbatim>\<open>gh.RepositoryListOptions\<close>, whatever \<open>opts\<close> holds.
\<close>

lemma listPages_returns_imp:
  assumes "listPages E client org opts candidates t = Some y"
  shows "\<exists>h. stops_listing (Repositories_List E h client org RepositoryListOptions_zero)"
proof (rule listPages.raw_induct
    [where P = "\<lambda>E client org opts candidates t y.
        \<exists>h. stops_listing (Repositories_List E h client org RepositoryListOptions_zero)",
      OF _ assms])
  fix listPages' E client org opts candidates t y
  assume IH: "\<And>E client org opts candidates t y.
      listPages' E client org opts candidates t = Some y \<Longrightarrow>
      \<exists>h. stops_listing (Repositories_List E h client org RepositoryListOptions_zero)"
    and body: "(case call_List E client org RepositoryListOptions_zero t of
        (Inl err, t) \<Rightarrow> Some (Inl err, t)
      | (Inr (repos, resp), t) \<Rightarrow>
          if NextPage resp = 0 then Some (Inr (candidates @ repos), t)
          else listPages' E client org (opts\<lparr>Page := NextPage resp\<rparr>) (candidates @ repos) t)
        = Some y"
  show "\<exists>h. stops_listing (Repositories_List E h client org RepositoryListOptions_zero)"
  proof (cases "stops_listing (Repositories_List E t client org RepositoryListOptions_zero)")
    case True
    then show ?thesis by blast
  next
    case False
    then obtain repos resp where
      ans: "Repositories_List E t client org RepositoryListOptions_zero = Inr (repos, resp)"
      and nxt: "NextPage resp \<noteq> 0"
      by (auto simp: stops_listing_def split: sum.splits)
    from body ans nxt have
      "listPages' E client org (opts\<lparr>Page := NextPage resp\<rparr>) (candidates @ repos)
         (t @ [List_call client org RepositoryListOptions_zero (Inr (repos, resp))]) = Some y"
      by (simp add: call_List_def Let_def)
    then show ?thesis by (rule IH)
  qed
qed

text \<open>So a first page that always names a next page keeps the loop running for ever.\<close>

lemma listPages_diverges:
  assumes "\<And>h. \<not> stops_listing (Repositories_List E h client org RepositoryListOptions_zero)"
  shows "listPages E client org opts candidates t = None"
  using listPages_returns_imp [of E client org opts candidates t] assms
  by (cases "listPages E client org opts candidates t") auto

lemma two_pages_listing:
  "listRepositoriesByOrg two_pages_env cfg t =
     (if Source_Instance cfg = None then Some (Panic, t) else None)"
proof (cases "Source_Instance cfg")
  case None
  then show ?thesis by (simp add: listRepositoriesByOrg_def)
next
  case (Some client)
  have "listPages two_pages_env client (Source_Organization cfg) \<lparr>Page = 0, PerPage = 30\<rparr> [] t
      = None"
    by (rule listPages_diverges)
      (simp add: stops_listing_def two_pages_env_def example_env_def
        RepositoryListOptions_zero_def)
  with Some show ?thesis by (simp add: listRepositoriesByOrg_def)
qed

text \<open>A listing of one page is returned as it is, after one request.\<close>

lemma listPages_single_page:
  assumes "Repositories_List E t client org RepositoryListOptions_zero = Inr (repos, resp)"
    and "NextPage resp = 0"
  shows "listPages E client org opts candidates t =
           Some (Inr (candidates @ repos),
                 t @ [List_call client org RepositoryListOptions_zero (Inr (repos, resp))])"
  using assms by (subst listPages.simps) (simp add: call_List_def Let_def)

text \<open>A failed request ends the listing with its error and no repositories.\<close>

lemma listPages_error:
  assumes "Repositories_List E t client org RepositoryListOptions_zero = Inl err"
  shows "listPages E client org opts candidates t =
           Some (Inl err, t @ [List_call client org RepositoryListOptions_zero (Inl err)])"
  using assms by (subst listPages.simps) (simp add: call_List_def Let_def)

text \<open>
  C3. On a listing of two pages, \<open>[a]\<close> then \<open>[b]\<close>, the run never gets past
  \<^verbatim>\<open>listRepositoriesByOrg\<close>: every request asks for the first page, which names page 2 as
  the next, so the loop does not end and the union of the pages is never returned.
\<close>

theorem listing_two_pages_never_returns: "main two_pages_env = None"
proof -
  have load: "loadConfiguration two_pages_env fileName [] =
      (Inr example_cfg, [ReadFile_call ''config.yml'' (Inr ''source: ...'')])"
    by (simp add: loadConfiguration_def call_ReadFile_def two_pages_env_def example_env_def
        fileName_def Let_def)
  obtain cfg t where conn: "connect two_pages_env example_cfg
      [ReadFile_call ''config.yml'' (Inr ''source: ...'')] = (Return cfg, t)"
    and inst: "Source_Instance cfg \<noteq> None"
    by (simp add: connect_def newGithubClient_def two_pages_env_def example_env_def
        example_cfg_def Configuration_zero_def Let_def log_entry_def)
  show ?thesis
    using load conn inst by (simp add: main_def two_pages_listing)
qed

section \<open>Errors that end the run, and errors that are dropped\<close>

text \<open>
  In every world: \<^verbatim>\<open>updateContent\<close> does not return to its caller once the commit is
  rejected, \<^verbatim>\<open>loadConfiguration\<close> returns what the parser filled whatever error the parser
  gave, and the archive step, run with the \<^verbatim>\<open>nil\<close> error the loop body holds at that point,
  adds no entry at error level.
\<close>

lemma updateContent_rejected_commit_is_fatal:
  assumes "updateContent E cfg repo t = (r, t')"
    and "list_ex (\<lambda>e. case e of
            UpdateFile_call client owner name path opt answer \<Rightarrow> answer \<noteq> None
          | _ \<Rightarrow> False) (drop (length t) t')"
  shows "r = Fatal"
  using assms
  by (auto simp: updateContent_def call_GetContents_def call_UpdateFile_def Let_def
      log_entry_def log_Fatal_def deref_def andThen_def
      split: option.splits sum.splits result.splits)

lemma loadConfiguration_drops_parse_error:
  assumes "ioutil_ReadFile E t path = Inr content"
  shows "fst (loadConfiguration E path t) =
           Inr (fst (yaml_Unmarshal E content Configuration_zero))"
  using assms by (simp add: loadConfiguration_def call_ReadFile_def Let_def)

lemma archiveStep_logs_no_error:
  assumes "archiveStep E cfg repo None t = (res, t')"
  shows "filter error_entry t' = filter error_entry t"
proof (cases "Source_Archive cfg")
  case False
  with assms show ?thesis by (simp add: archiveStep_def)
next
  case True
  with assms show ?thesis
    by (auto simp: archiveStep_def archiveRepo_def call_Edit_def Let_def log_entry_def
        deref_def split: option.splits)
qed

text \<open>
  C1. When the source rejects the commit of the rewritten file, the run ends inside
  \<^verbatim>\<open>updateContent\<close>: the last entry of the trace is the fatal one carrying the error, the
  process exits, and the archive step, though configured, is never reached.
\<close>

theorem commit_rejected_ends_the_process:
  "map_option fst (main commit_rejected_env) = Some Fatal \<and>
   last (final_trace (main commit_rejected_env)) = Log FatalLevel ''409 Conflict'' [] \<and>
   filter archive_call (final_trace (main commit_rejected_env)) = []"
  by code_simp

text \<open>
  C4. With a \<^verbatim>\<open>config.yml\<close> that is there and that the parser rejects,
  \<^verbatim>\<open>loadConfiguration\<close> returns the zero configuration and no error, and the run goes on to
  its normal end.
\<close>

theorem malformed_configuration_is_accepted:
  "snd (yaml_Unmarshal malformed_env ''source: ['' Configuration_zero) \<noteq> None \<and>
   fst (loadConfiguration malformed_env fileName []) = Inr Configuration_zero \<and>
   map_option fst (main malformed_env) = Some (Return ())"
  by code_simp

text \<open>
  C6. When the source refuses to archive, the run ends normally and its trace holds the
  refused edit and no entry at error level: the error of \<^verbatim>\<open>archiveRepo\<close> is dropped.
\<close>

theorem archive_error_is_dropped:
  "map_option fst (main archive_denied_env) = Some (Return ()) \<and>
   map (\<lambda>e. case e of Edit_call client owner repo opt answer \<Rightarrow> answer | _ \<Rightarrow> None)
     (filter archive_call (final_trace (main archive_denied_env))) = [Some ''403 Forbidden''] \<and>
   filter error_entry (final_trace (main archive_denied_env)) = []"
  by code_simp

section \<open>The request that creates the target repository\<close>

lemma map_filter_append:
  "List.map_filter f (xs @ ys) = List.map_filter f xs @ List.map_filter f ys"
  by (simp add: List.map_filter_def)


text \<open>
  C8. Whatever the source descriptor holds, \<^verbatim>\<open>createRepo\<close> sends one create request; it
  carries the name, description, homepage and private flag of the source, has issues,
  projects, wiki, rebase-merge and squash-merge set to false, and leaves every other field
  unset.
\<close>

theorem createRepo_request:
  assumes "Target_Instance cfg = Some client"
  shows "\<exists>opts. List.map_filter create_request (snd (createRepo E cfg repo t)) =
             List.map_filter create_request t @ [opts] \<and>
           Name opts = Name repo \<and> Description opts = Description repo \<and>
           Homepage opts = Homepage repo \<and> Private opts = Private repo \<and>
           HasIssues opts = Some False \<and> HasProjects opts = Some False \<and>
           HasWiki opts = Some False \<and> AllowRebaseMerge opts = Some False \<and>
           AllowSquashMerge opts = Some False \<and>
           Archived opts = None \<and> SSHURL opts = None \<and> HTMLURL opts = None \<and> URL opts = None"
proof -
  define opts where "opts = Repository_zero
            \<lparr>Name := Name repo,
             Description := Description repo,
             Homepage := Homepage repo,
             Private := Private repo,
             HasIssues := Some False,
             HasProjects := Some False,
             HasWiki := Some False,
             AllowRebaseMerge := Some False,
             AllowSquashMerge := Some False\<rparr>"
  have "List.map_filter create_request (snd (createRepo E cfg repo t)) =
             List.map_filter create_request t @ [opts]"
    using assms
    by (simp add: createRepo_def call_Create_def Let_def log_entry_def opts_def [symmetric]
        deref_def map_filter_append map_filter_simps split: sum.splits option.splits)
  moreover have "Name opts = Name repo \<and> Description opts = Description repo \<and>
           Homepage opts = Homepage repo \<and> Private opts = Private repo \<and>
           HasIssues opts = Some False \<and> HasProjects opts = Some False \<and>
           HasWiki opts = Some False \<and> AllowRebaseMerge opts = Some False \<and>
           AllowSquashMerge opts = Some False \<and>
           Archived opts = None \<and> SSHURL opts = None \<and> HTMLURL opts = None \<and> URL opts = None"
    by (simp add: opts_def Repository_zero_def)
  ultimately show ?thesis by blast
qed

theorem createRepo_request_witness:
  "Target_Instance connected_cfg = Some example_client \<and>
   HasIssues (source_repo ''a'') = Some True \<and>
   (\<exists>opts. List.map_filter create_request
        (snd (createRepo example_env connected_cfg (source_repo ''a'') [])) =
          List.map_filter create_request [] @ [opts] \<and>
      Name opts = Name (source_repo ''a'') \<and>
      Description opts = Description (source_repo ''a'') \<and>
      Homepage opts = Homepage (source_repo ''a'') \<and>
      Private opts = Private (source_repo ''a'') \<and>
      HasIssues opts = Some False \<and> HasProjects opts = Some False \<and>
      HasWiki opts = Some False \<and> AllowRebaseMerge opts = Some False \<and>
      AllowSquashMerge opts = Some False \<and>
      Archived opts = None \<and> SSHURL opts = None \<and> HTMLURL opts = None \<and> URL opts = None)"
proof -
  have client: "Target_Instance connected_cfg = Some example_client"
    by (simp add: connected_cfg_def)
  have issues: "HasIssues (source_repo ''a'') = Some True"
    by (simp add: source_repo_def)
  show ?thesis
    using client issues
      createRepo_request [OF client, of example_env "source_repo ''a''" "[]"]
    by blast
qed

section \<open>The rewritten file\<close>

text \<open>
  What \<^verbatim>\<open>strings.Replace(template, "{{url}}", url, -1)\<close> does to a template: text without
  a brace is kept, and a placeholder after such text is replaced by the URL.
\<close>

lemma strings_Replace_no_brace:
  "CHR ''{'' \<notin> set s \<Longrightarrow> strings_Replace s ''{{url}}'' new n = s"
proof (induction s)
  case Nil
  then show ?case by (simp add: strings_Replace.simps)
next
  case (Cons c s)
  then show ?case by (subst strings_Replace.simps) auto
qed

lemma strings_Replace_placeholder:
  "CHR ''{'' \<notin> set pre \<Longrightarrow> n \<noteq> 0 \<Longrightarrow>
   strings_Replace (pre @ ''{{url}}'' @ post) ''{{url}}'' new n =
     pre @ new @ strings_Replace post ''{{url}}'' new (n - 1)"
proof (induction pre)
  case Nil
  then show ?case by (subst strings_Replace.simps) simp
next
  case (Cons c pre)
  then show ?case by (subst strings_Replace.simps) auto
qed

lemma render_example:
  "strings_Replace ''Migrated. {{url}}'' ''{{url}}'' ''https://h/org/r'' (- 1) =
     ''Migrated. https://h/org/r''"
  by (simp add: strings_Replace.simps)

text \<open>
  C5 (as amended). When the file is fetched and decoded, \<^verbatim>\<open>updateContent\<close> sends one file
  body: the template with every \<^verbatim>\<open>{{url}}\<close> replaced by the HTML URL of the target
  repository, then the eight characters \<^verbatim>\<open><br><br>\<close>, then the original content.
\<close>

theorem updateContent_file_body:
  assumes "Source_Instance cfg = Some client"
    and "Name repo = Some name"
    and "HTMLURL repo = Some url"
    and "Repositories_GetContents E t client (Source_Organization cfg) name
           (Source_Content_Path cfg) = Inr c"
    and "GetContent E c = Return (Inr content)"
  shows "List.map_filter sent_content (snd (updateContent E cfg repo t)) =
           List.map_filter sent_content t @
           [strings_Replace (Source_Content_Message cfg) ''{{url}}'' url (- 1) @
            ''<br><br>'' @ content]"
  using assms
  by (simp add: updateContent_def call_GetContents_def call_UpdateFile_def Let_def
      log_entry_def log_Fatal_def map_filter_append map_filter_simps split: option.splits)

theorem updateContent_file_body_witness:
  "Source_Instance connected_cfg = Some example_client \<and>
   Name (created_repo (source_repo ''r'')) = Some ''r'' \<and>
   HTMLURL (created_repo (source_repo ''r'')) = Some ''https://h/org/r'' \<and>
   Repositories_GetContents example_env [] example_client (Source_Organization connected_cfg)
     ''r'' (Source_Content_Path connected_cfg) =
     Inr (Some \<lparr>Encoding = None, EncodedContent = Some ''# a'', ContentSHA = Some ''abc''\<rparr>) \<and>
   GetContent example_env
     (Some \<lparr>Encoding = None, EncodedContent = Some ''# a'', ContentSHA = Some ''abc''\<rparr>) =
     Return (Inr ''# a'') \<and>
   List.map_filter sent_content
     (snd (updateContent example_env connected_cfg (created_repo (source_repo ''r'')) [])) =
     [''Migrated. https://h/org/r<br><br># a'']"
proof -
  have client: "Source_Instance connected_cfg = Some example_client"
    by (simp add: connected_cfg_def)
  have name: "Name (created_repo (source_repo ''r'')) = Some ''r''"
    by (simp add: created_repo_def source_repo_def)
  have url: "HTMLURL (created_repo (source_repo ''r'')) = Some ''https://h/org/r''"
    by (simp add: created_repo_def source_repo_def)
  have fetched: "Repositories_GetContents example_env [] example_client
      (Source_Organization connected_cfg) ''r'' (Source_Content_Path connected_cfg) =
      Inr (Some \<lparr>Encoding = None, EncodedContent = Some ''# a'', ContentSHA = Some ''abc''\<rparr>)"
    by (simp add: example_env_def)
  have decoded: "GetContent example_env
      (Some \<lparr>Encoding = None, EncodedContent = Some ''# a'', ContentSHA = Some ''abc''\<rparr>) =
      Return (Inr ''# a'')"
    by (simp add: GetContent_def)
  have template: "Source_Content_Message connected_cfg = ''Migrated. {{url}}''"
    by (simp add: connected_cfg_def example_cfg_def)
  have "List.map_filter sent_content
      (snd (updateContent example_env connected_cfg (created_repo (source_repo ''r'')) [])) =
      List.map_filter sent_content [] @
      [strings_Replace (Source_Content_Message connected_cfg) ''{{url}}'' ''https://h/org/r''
         (- 1) @ ''<br><br>'' @ ''# a'']"
    by (rule updateContent_file_body [OF client name url fetched decoded])
  also have "\<dots> = [''Migrated. https://h/org/r<br><br># a'']"
    by (simp add: template render_example map_filter_simps)
  finally show ?thesis
    using client name url fetched decoded by blast
qed

text \<open>
  C5 as it was stated fails: in the scenario of the specification the body sent is not
  "the message, two line feeds, the content"; it holds no line feed at all.
\<close>

theorem file_body_has_no_line_break:
  "List.map_filter sent_content
     (snd (updateContent example_env connected_cfg (created_repo (source_repo ''r'')) [])) =
     [''Migrated. https://h/org/r<br><br># a''] \<and>
   ''Migrated. https://h/org/r<br><br># a'' \<noteq>
     ''Migrated. https://h/org/r'' @ [CHR 0x0A, CHR 0x0A] @ ''# a'' \<and>
   CHR 0x0A \<notin> set ''Migrated. https://h/org/r<br><br># a''"
  by code_simp

section \<open>What each step adds to the trace\<close>

lemma createRepo_events:
  assumes "createRepo E cfg repo t = (r, t')"
  shows "\<exists>es. t' = t @ es \<and> list_all opening_event es"
  using assms
  by (auto simp: createRepo_def call_Create_def Let_def log_entry_def deref_def
      split: option.splits sum.splits)

lemma cloneAndPush_events:
  assumes "cloneAndPush E cfg source targetURL t = (r, t')"
  shows "if r = Return None
         then \<exists>es g remoteName auth. t' = t @ es @ [Push_call g remoteName auth None] \<and>
                list_all opening_event es
         else \<exists>es. t' = t @ es \<and> list_all opening_event es"
  using assms
  by (auto simp: cloneAndPush_def call_NewPublicKeysFromFile_def call_PlainClone_def
      call_CreateRemote_def call_Push_def Let_def log_entry_def deref_def
      split: option.splits sum.splits)

lemma updateContent_events:
  assumes "updateContent E cfg repo t = (r, t')"
  shows "\<exists>es. t' = t @ es \<and> content_events es"
  using assms
  by (auto simp: updateContent_def call_GetContents_def call_UpdateFile_def Let_def
      log_entry_def log_Fatal_def deref_def andThen_def content_events_def
      split: option.splits sum.splits result.splits)

lemma contentStep_events:
  assumes "contentStep E cfg r t = (res, t')"
  shows "\<exists>es. t' = t @ es \<and> content_events es"
proof (cases "Source_Content_Path cfg = []")
  case True
  with assms show ?thesis by (simp add: contentStep_def content_events_def)
next
  case False
  obtain ru tu where u: "updateContent E cfg r t = (ru, tu)" by (cases "updateContent E cfg r t")
  from updateContent_events [OF u] obtain es where es: "tu = t @ es" "content_events es"
    by blast
  show ?thesis
  proof (cases ru)
    case (Return err)
    with assms False u es show ?thesis
      by (cases err) (auto simp: contentStep_def log_entry_def content_events_def)
  next
    case Fatal
    with assms False u es show ?thesis by (auto simp: contentStep_def)
  next
    case Panic
    with assms False u es show ?thesis by (auto simp: contentStep_def)
  qed
qed

lemma archiveRepo_events:
  assumes "archiveRepo E cfg repo t = (r, t')"
  shows "\<exists>es. t' = t @ es \<and> archive_events es \<and> filter error_entry es = []"
  using assms
  by (auto simp: archiveRepo_def call_Edit_def Let_def log_entry_def deref_def
      archive_events_def split: option.splits)

lemma archiveStep_events:
  assumes "archiveStep E cfg repo None t = (res, t')"
  shows "\<exists>es. t' = t @ es \<and> archive_events es \<and> filter error_entry es = []"
proof (cases "Source_Archive cfg")
  case False
  with assms show ?thesis by (simp add: archiveStep_def archive_events_def)
next
  case True
  obtain ra ta where a: "archiveRepo E cfg repo t = (ra, ta)" by (cases "archiveRepo E cfg repo t")
  from archiveRepo_events [OF a] obtain es where
    es: "ta = t @ es" "archive_events es" "filter error_entry es = []"
    by blast
  from assms True a es show ?thesis
    by (cases ra) (auto simp: archiveStep_def)
qed


lemma opening_event_not:
  "opening_event e \<Longrightarrow>
     \<not> push_succeeded e \<and> \<not> body_started e \<and> \<not> content_call e \<and> \<not> archive_call e \<and>
     \<not> error_entry e"
  by (cases e rule: opening_event.cases) auto

lemma closing_event_not:
  "closing_event e \<Longrightarrow> \<not> push_succeeded e \<and> \<not> body_started e \<and> \<not> migration_call e"
  by (cases e rule: closing_event.cases) auto

lemma filter_empty_if: "list_all P es \<Longrightarrow> (\<And>e. P e \<Longrightarrow> \<not> Q e) \<Longrightarrow> filter Q es = []"
  by (induction es) auto

lemma closing_append:
  assumes "content_events es1" and "archive_events es2"
  shows "closing (es1 @ es2)"
    and "msg \<noteq> ''processing a repository'' \<Longrightarrow> closing (es1 @ es2 @ [Log lvl msg fs])"
  using assms by (auto simp: closing_def content_events_def archive_events_def)

lemma content_events_closing: "content_events es \<Longrightarrow> closing es"
  by (simp add: closing_def content_events_def)

text \<open>One run of the loop body: the three shapes of what it adds to the trace.\<close>

lemma loopBody_cases:
  assumes run: "loopBody E cfg i n repo t = (res, t')"
  obtains
    (unnamed) "Name repo = None" and "res = Panic" and "t' = t"
  | (early) e0 es where "Name repo \<noteq> None" and "t' = t @ e0 # es" and "body_started e0"
      and "list_all (\<lambda>e. opening_event e \<or> error_entry e) es" and "res \<noteq> Return Break"
  | (pushed) e0 es g remoteName auth tail where "Name repo \<noteq> None"
      and "t' = t @ e0 # es @ Push_call g remoteName auth None # tail" and "body_started e0"
      and "list_all opening_event es" and "closing tail" and "res \<noteq> Return Continue"
proof (cases "Name repo")
  case None
  with run have "res = Panic" "t' = t" by (simp_all add: loopBody_def)
  with None show ?thesis by (rule unnamed)
next
  case (Some name)
  define e0 where "e0 = Log InfoLevel ''processing a repository''
      [(''name'', FString name), (''index'', FString (decimal (i + 1) @ ''/'' @ decimal n))]"
  have started: "body_started e0" by (simp add: e0_def)
  have named: "Name repo \<noteq> None" using Some by simp
  obtain rc t2 where c: "createRepo E cfg repo (t @ [e0]) = (rc, t2)"
    by (cases "createRepo E cfg repo (t @ [e0])")
  from createRepo_events [OF c] obtain esc where
    t2: "t2 = t @ e0 # esc" and esc: "list_all opening_event esc"
    by auto
  have esc': "list_all (\<lambda>e. opening_event e \<or> error_entry e) esc"
    using esc by (auto simp: list_all_iff)
  have body: "loopBody E cfg i n repo t =
      andThen (rc, t2) (\<lambda>created t.
        case created of
          Inl err \<Rightarrow> (Return Continue, log_entry ErrorLevel err [] t)
        | Inr r \<Rightarrow>
            andThen (deref (SSHURL r) t) (\<lambda>targetURL t.
            andThen (cloneAndPush E cfg repo targetURL t) (\<lambda>err t.
            case err of
              Some e \<Rightarrow> (Return Continue, log_entry ErrorLevel e [] t)
            | None \<Rightarrow>
                andThen (contentStep E cfg r t) (\<lambda>_ t.
                andThen (archiveStep E cfg repo err t) (\<lambda>_ t.
                let t = log_entry InfoLevel done_line [] t
                in (Return Break, t))))))"
    using Some c by (simp add: loopBody_def log_entry_def e0_def)
  show ?thesis
  proof (cases rc)
    case Fatal
    with body run t2 have "res = Fatal" "t' = t @ e0 # esc" by simp_all
    then show ?thesis using named started esc' by (intro early [of e0 esc]) auto
  next
    case Panic
    with body run t2 have "res = Panic" "t' = t @ e0 # esc" by simp_all
    then show ?thesis using named started esc' by (intro early [of e0 esc]) auto
  next
    case (Return created)
    show ?thesis
    proof (cases created)
      case (Inl err)
      with Return body run t2 have "res = Return Continue"
        "t' = t @ e0 # (esc @ [Log ErrorLevel err []])"
        by (simp_all add: log_entry_def)
      then show ?thesis using named started esc'
        by (intro early [of e0 "esc @ [Log ErrorLevel err []]"]) auto
    next
      case (Inr r)
      show ?thesis
      proof (cases "SSHURL r")
        case None
        with Inr Return body run t2 have "res = Panic" "t' = t @ e0 # esc" by simp_all
        then show ?thesis using named started esc' by (intro early [of e0 esc]) auto
      next
        case (Some targetURL)
        obtain rp t3 where p: "cloneAndPush E cfg repo targetURL t2 = (rp, t3)"
          by (cases "cloneAndPush E cfg repo targetURL t2")
        have body2: "loopBody E cfg i n repo t =
            andThen (rp, t3) (\<lambda>err t.
            case err of
              Some e \<Rightarrow> (Return Continue, log_entry ErrorLevel e [] t)
            | None \<Rightarrow>
                andThen (contentStep E cfg r t) (\<lambda>_ t.
                andThen (archiveStep E cfg repo err t) (\<lambda>_ t.
                let t = log_entry InfoLevel done_line [] t
                in (Return Break, t))))"
          using body Return Inr Some p by simp
        show ?thesis
        proof (cases "rp = Return None")
          case False
          with cloneAndPush_events [OF p] obtain esp where
            t3: "t3 = t2 @ esp" and esp: "list_all opening_event esp"
            by auto
          have esp': "list_all (\<lambda>e. opening_event e \<or> error_entry e) (esc @ esp)"
            using esc esp by (auto simp: list_all_iff)
          show ?thesis
          proof (cases rp)
            case Fatal
            with body2 run t2 t3 have "res = Fatal" "t' = t @ e0 # (esc @ esp)" by simp_all
            then show ?thesis using named started esp'
              by (intro early [of e0 "esc @ esp"]) auto
          next
            case Panic
            with body2 run t2 t3 have "res = Panic" "t' = t @ e0 # (esc @ esp)" by simp_all
            then show ?thesis using named started esp'
              by (intro early [of e0 "esc @ esp"]) auto
          next
            case (Return pushed)
            with False obtain e where "pushed = Some e" by (cases pushed) auto
            with Return body2 run t2 t3 have "res = Return Continue"
              "t' = t @ e0 # ((esc @ esp) @ [Log ErrorLevel e []])"
              by (simp_all add: log_entry_def)
            then show ?thesis using named started esp'
              by (intro early [of e0 "(esc @ esp) @ [Log ErrorLevel e []]"]) auto
          qed
        next
          case True
          with cloneAndPush_events [OF p] obtain esp g remoteName auth where
            t3: "t3 = t2 @ esp @ [Push_call g remoteName auth None]"
            and esp: "list_all opening_event esp"
            by auto
          have pre: "list_all opening_event (esc @ esp)"
            using esc esp by simp
          have t3': "t3 = t @ e0 # (esc @ esp) @ [Push_call g remoteName auth None]"
            using t2 t3 by simp
          obtain r4 t4 where s4: "contentStep E cfg r t3 = (r4, t4)"
            by (cases "contentStep E cfg r t3")
          from contentStep_events [OF s4] obtain es4 where
            t4: "t4 = t3 @ es4" and es4: "content_events es4"
            by blast
          obtain r5 t5 where s5: "archiveStep E cfg repo None t4 = (r5, t5)"
            by (cases "archiveStep E cfg repo None t4")
          from archiveStep_events [OF s5] obtain es5 where
            t5: "t5 = t4 @ es5" and es5: "archive_events es5"
            by blast
          have body3: "loopBody E cfg i n repo t =
              andThen (r4, t4) (\<lambda>_ t.
              andThen (archiveStep E cfg repo None t) (\<lambda>_ t.
              (Return Break, log_entry InfoLevel done_line [] t)))"
            using body2 True s4 by simp
          show ?thesis
          proof (cases r4)
            case Fatal
            with body3 run have "res = Fatal" "t' = t4" by simp_all
            then show ?thesis using named started pre t3' t4 content_events_closing [OF es4]
              by (intro pushed [of e0 "esc @ esp" g remoteName auth es4]) auto
          next
            case Panic
            with body3 run have "res = Panic" "t' = t4" by simp_all
            then show ?thesis using named started pre t3' t4 content_events_closing [OF es4]
              by (intro pushed [of e0 "esc @ esp" g remoteName auth es4]) auto
          next
            case (Return u)
            show ?thesis
            proof (cases r5)
              case Fatal
              with Return body3 run s5 have "res = Fatal" "t' = t5" by simp_all
              then show ?thesis
                using named started pre t3' t4 t5 closing_append(1) [OF es4 es5]
                by (intro pushed [of e0 "esc @ esp" g remoteName auth "es4 @ es5"]) auto
            next
              case Panic
              with Return body3 run s5 have "res = Panic" "t' = t5" by simp_all
              then show ?thesis
                using named started pre t3' t4 t5 closing_append(1) [OF es4 es5]
                by (intro pushed [of e0 "esc @ esp" g remoteName auth "es4 @ es5"]) auto
            next
              case (Return u')
              have cl: "closing (es4 @ es5 @ [Log InfoLevel done_line []])"
                by (rule closing_append(2) [OF es4 es5]) (simp add: done_line_def)
              from Return \<open>r4 = Return u\<close> body3 run s5 have "res = Return Break"
                "t' = t5 @ [Log InfoLevel done_line []]"
                by (simp_all add: log_entry_def)
              then show ?thesis
                using named started pre t3' t4 t5 cl
                by (intro pushed [of e0 "esc @ esp" g remoteName auth "es4 @ es5 @ [Log InfoLevel done_line []]"])
                  auto
            qed
          qed
        qed
      qed
    qed
  qed
qed






lemma loopBody_bodyRuns:
  assumes "loopBody E cfg i n repo t = (res, t')" and "Name repo \<noteq> None"
  shows "bodyRuns t' = Suc (bodyRuns t)"
  using assms(1)
proof (cases rule: loopBody_cases)
  case unnamed
  with assms(2) show ?thesis by simp
next
  case (early e0 es)
  have "filter body_started es = []"
    using early(4) by (rule filter_empty_if) (auto simp: opening_event_not elim: error_entry.elims)
  with early(2,3) show ?thesis by (simp add: bodyRuns_def)
next
  case (pushed e0 es g remoteName auth tail)
  have "filter body_started es = []"
    using pushed(4) by (rule filter_empty_if) (simp add: opening_event_not)
  moreover have "filter body_started tail = []"
    using pushed(5) unfolding closing_def
    by (intro filter_empty_if [of closing_event]) (simp_all add: closing_event_not)
  ultimately show ?thesis using pushed(2,3) by (simp add: bodyRuns_def)
qed

lemma andThen_never_continues:
  "fst (andThen m (\<lambda>x t. andThen (f x t) (\<lambda>y t. (Return Break, g y t)))) \<noteq> Return Continue"
proof (cases m)
  case (Pair r t)
  show ?thesis
  proof (cases r)
    case (Return x)
    with Pair show ?thesis
      by (cases "f x t"; cases "fst (f x t)") auto
  qed (use Pair in auto)
qed

section \<open>The loop over the candidates\<close>

text \<open>
  C9. When \<^verbatim>\<open>cloneAndPush\<close> returns an error for a candidate, the loop body logs that
  error and ends with \<^verbatim>\<open>continue\<close>: the trace it leaves is the trace at the failure plus
  the error entry, and it holds no fetch or commit of the content update and no archive
  edit beyond those already there before the body ran.
\<close>

theorem failed_push_skips_optional_steps:
  assumes "Name repo = Some name"
    and "createRepo E cfg repo
           (log_entry InfoLevel ''processing a repository''
              [(''name'', FString name),
               (''index'', FString (decimal (i + 1) @ ''/'' @ decimal n))] t) =
         (Return (Inr r), t2)"
    and "SSHURL r = Some targetURL"
    and "cloneAndPush E cfg repo targetURL t2 = (Return (Some err), t3)"
  shows "loopBody E cfg i n repo t = (Return Continue, log_entry ErrorLevel err [] t3) \<and>
         filter content_call (log_entry ErrorLevel err [] t3) = filter content_call t \<and>
         filter archive_call (log_entry ErrorLevel err [] t3) = filter archive_call t"
proof -
  have body: "loopBody E cfg i n repo t = (Return Continue, log_entry ErrorLevel err [] t3)"
    using assms by (simp add: loopBody_def)
  from createRepo_events [OF assms(2)] obtain esc where
    t2: "t2 = t @ Log InfoLevel ''processing a repository''
      [(''name'', FString name), (''index'', FString (decimal (i + 1) @ ''/'' @ decimal n))] # esc"
    and esc: "list_all opening_event esc"
    by (auto simp: log_entry_def)
  from cloneAndPush_events [OF assms(4)] obtain esp where
    t3: "t3 = t2 @ esp" and esp: "list_all opening_event esp"
    by auto
  have "filter content_call esc = []" "filter archive_call esc = []"
    "filter content_call esp = []" "filter archive_call esp = []"
    using esc esp by (auto intro!: filter_empty_if [of opening_event] simp: opening_event_not)
  with t2 t3 body show ?thesis by (simp add: log_entry_def)
qed

theorem failed_push_skips_optional_steps_witness:
  "Name (source_repo ''a'') = Some ''a'' \<and>
   fst (createRepo push_rejected_env connected_cfg (source_repo ''a'')
     (log_entry InfoLevel ''processing a repository''
        [(''name'', FString ''a''), (''index'', FString (decimal (0 + 1) @ ''/'' @ decimal 1))] [])) =
     Return (Inr (created_repo (source_repo ''a''
        \<lparr>HasIssues := Some False, HasProjects := Some False, HasWiki := Some False,
         AllowRebaseMerge := Some False, AllowSquashMerge := Some False,
         Archived := None, SSHURL := None, HTMLURL := None, URL := None\<rparr>))) \<and>
   fst (cloneAndPush push_rejected_env connected_cfg (source_repo ''a'') ''git@h:org/a''
     (snd (createRepo push_rejected_env connected_cfg (source_repo ''a'')
       (log_entry InfoLevel ''processing a repository''
          [(''name'', FString ''a''), (''index'', FString (decimal (0 + 1) @ ''/'' @ decimal 1))] [])))) =
     Return (Some ''push rejected'') \<and>
   fst (loopBody push_rejected_env connected_cfg 0 1 (source_repo ''a'') []) = Return Continue \<and>
   last (snd (loopBody push_rejected_env connected_cfg 0 1 (source_repo ''a'') [])) =
     Log ErrorLevel ''push rejected'' [] \<and>
   filter content_call (snd (loopBody push_rejected_env connected_cfg 0 1 (source_repo ''a'') [])) = [] \<and>
   filter archive_call (snd (loopBody push_rejected_env connected_cfg 0 1 (source_repo ''a'') [])) = []"
proof -
  define t1 where "t1 = log_entry InfoLevel ''processing a repository''
        [(''name'', FString ''a''), (''index'', FString (decimal (0 + 1) @ ''/'' @ decimal 1))] []"
  define r where "r = created_repo (source_repo ''a''
        \<lparr>HasIssues := Some False, HasProjects := Some False, HasWiki := Some False,
         AllowRebaseMerge := Some False, AllowSquashMerge := Some False,
         Archived := None, SSHURL := None, HTMLURL := None, URL := None\<rparr>)"
  define t2 where "t2 = snd (createRepo push_rejected_env connected_cfg (source_repo ''a'') t1)"
  define t3 where "t3 = snd (cloneAndPush push_rejected_env connected_cfg (source_repo ''a'')
    ''git@h:org/a'' t2)"
  have name: "Name (source_repo ''a'') = Some ''a''"
    by (simp add: source_repo_def)
  have "fst (createRepo push_rejected_env connected_cfg (source_repo ''a'') t1) = Return (Inr r)"
    unfolding t1_def r_def by code_simp
  then have create: "createRepo push_rejected_env connected_cfg (source_repo ''a'') t1 =
      (Return (Inr r), t2)"
    by (simp add: t2_def prod_eq_iff)
  have url: "SSHURL r = Some ''git@h:org/a''"
    unfolding r_def by code_simp
  have "fst (cloneAndPush push_rejected_env connected_cfg (source_repo ''a'') ''git@h:org/a'' t2) =
      Return (Some ''push rejected'')"
    unfolding t2_def t1_def by code_simp
  then have push: "cloneAndPush push_rejected_env connected_cfg (source_repo ''a'')
      ''git@h:org/a'' t2 = (Return (Some ''push rejected''), t3)"
    by (simp add: t3_def prod_eq_iff)
  from failed_push_skips_optional_steps [OF name create [unfolded t1_def] url push]
  have "loopBody push_rejected_env connected_cfg 0 1 (source_repo ''a'') [] =
      (Return Continue, log_entry ErrorLevel ''push rejected'' [] t3) \<and>
    filter content_call (log_entry ErrorLevel ''push rejected'' [] t3) = filter content_call [] \<and>
    filter archive_call (log_entry ErrorLevel ''push rejected'' [] t3) = filter archive_call []" .
  then show ?thesis
    using name \<open>fst (createRepo push_rejected_env connected_cfg (source_repo ''a'') t1) = Return (Inr r)\<close>
      \<open>fst (cloneAndPush push_rejected_env connected_cfg (source_repo ''a'') ''git@h:org/a'' t2) =
      Return (Some ''push rejected'')\<close>
    by (simp add: log_entry_def t1_def t2_def r_def)
qed

text \<open>
  C2 (as amended). The loop body runs on the first candidate. When \<^verbatim>\<open>createRepo\<close> or
  \<^verbatim>\<open>cloneAndPush\<close> returns an error for it, the error is logged and the loop goes on with
  the next candidate. When both succeed, the loop ends with this iteration whatever
  candidates remain: the run is the run on the candidate alone, and the body has run
  once.
\<close>

theorem loop_goes_on_until_first_success:
  assumes "Name repo = Some name"
    and "createRepo E cfg repo
           (log_entry InfoLevel ''processing a repository''
              [(''name'', FString name),
               (''index'', FString (decimal (i + 1) @ ''/'' @ decimal n))] t) =
         (Return created, t2)"
  shows "case created of
           Inl err \<Rightarrow>
             migrateAll E cfg i n (repo # rest) t =
               migrateAll E cfg (i + 1) n rest (log_entry ErrorLevel err [] t2)
         | Inr r \<Rightarrow>
             (\<forall>targetURL pushed t3.
                SSHURL r = Some targetURL \<and>
                cloneAndPush E cfg repo targetURL t2 = (Return pushed, t3) \<longrightarrow>
                (case pushed of
                   Some err \<Rightarrow>
                     migrateAll E cfg i n (repo # rest) t =
                       migrateAll E cfg (i + 1) n rest (log_entry ErrorLevel err [] t3)
                 | None \<Rightarrow>
                     migrateAll E cfg i n (repo # rest) t = migrateAll E cfg i n [repo] t \<and>
                     bodyRuns (snd (migrateAll E cfg i n (repo # rest) t)) = Suc (bodyRuns t)))"
proof (cases created)
  case (Inl err)
  with assms have "loopBody E cfg i n repo t = (Return Continue, log_entry ErrorLevel err [] t2)"
    by (simp add: loopBody_def)
  with Inl show ?thesis by simp
next
  case (Inr r)
  have goes_on: "migrateAll E cfg i n (repo # rest) t =
          migrateAll E cfg (i + 1) n rest (log_entry ErrorLevel err [] t3)"
    if "SSHURL r = Some targetURL"
      and "cloneAndPush E cfg repo targetURL t2 = (Return (Some err), t3)"
    for targetURL err t3
  proof -
    from assms Inr that have
      "loopBody E cfg i n repo t = (Return Continue, log_entry ErrorLevel err [] t3)"
      by (simp add: loopBody_def)
    then show ?thesis by simp
  qed
  have stops: "migrateAll E cfg i n (repo # rest) t = migrateAll E cfg i n [repo] t \<and>
      bodyRuns (snd (migrateAll E cfg i n (repo # rest) t)) = Suc (bodyRuns t)"
    if "SSHURL r = Some targetURL"
      and "cloneAndPush E cfg repo targetURL t2 = (Return None, t3)"
    for targetURL t3
  proof -
    obtain rb tb where b: "loopBody E cfg i n repo t = (rb, tb)"
      by (cases "loopBody E cfg i n repo t")
    from assms Inr that have "loopBody E cfg i n repo t =
        andThen (contentStep E cfg r t3) (\<lambda>_ t.
        andThen (archiveStep E cfg repo None t) (\<lambda>_ t.
        (Return Break, log_entry InfoLevel done_line [] t)))"
      by (simp add: loopBody_def)
    with andThen_never_continues
      [of "contentStep E cfg r t3" "\<lambda>_. archiveStep E cfg repo None"
        "\<lambda>_. log_entry InfoLevel done_line []"] b
    have stop: "rb \<noteq> Return Continue" by simp
    have eq: "migrateAll E cfg i n (repo # rest) t = migrateAll E cfg i n [repo] t"
      using b stop by (cases rb) (auto split: control.splits)
    have "snd (migrateAll E cfg i n [repo] t) = tb"
      using b stop by (cases rb) (auto split: control.splits)
    moreover have "bodyRuns tb = Suc (bodyRuns t)"
      using loopBody_bodyRuns [OF b] assms(1) by simp
    ultimately show ?thesis using eq by simp
  qed
  show ?thesis
    unfolding Inr sum.case
  proof (intro allI impI, elim conjE)
    fix targetURL pushed t3
    assume url: "SSHURL r = Some targetURL"
      and push: "cloneAndPush E cfg repo targetURL t2 = (Return pushed, t3)"
    show "case pushed of
            None \<Rightarrow>
              migrateAll E cfg i n (repo # rest) t = migrateAll E cfg i n [repo] t \<and>
              bodyRuns (snd (migrateAll E cfg i n (repo # rest) t)) = Suc (bodyRuns t)
          | Some err \<Rightarrow>
              migrateAll E cfg i n (repo # rest) t =
                migrateAll E cfg (i + 1) n rest (log_entry ErrorLevel err [] t3)"
    proof (cases pushed)
      case None
      with push have "cloneAndPush E cfg repo targetURL t2 = (Return None, t3)" by simp
      then show ?thesis unfolding None option.case by (rule stops [OF url])
    next
      case (Some err)
      with push have "cloneAndPush E cfg repo targetURL t2 = (Return (Some err), t3)" by simp
      then show ?thesis unfolding Some option.case by (rule goes_on [OF url])
    qed
  qed
qed

theorem loop_goes_on_until_first_success_witness:
  "migrateAll create_fails_env (connected_cfg\<lparr>Source_Ignore := []\<rparr>) 0 2
     [source_repo ''a'', source_repo ''b''] [] =
   migrateAll create_fails_env (connected_cfg\<lparr>Source_Ignore := []\<rparr>) (0 + 1) 2
     [source_repo ''b'']
     (log_entry ErrorLevel ''422 name already exists'' []
        (snd (createRepo create_fails_env (connected_cfg\<lparr>Source_Ignore := []\<rparr>) (source_repo ''a'')
           (log_entry InfoLevel ''processing a repository''
              [(''name'', FString ''a''),
               (''index'', FString (decimal (0 + 1) @ ''/'' @ decimal 2))] [])))) \<and>
   migrateAll two_candidates_env (connected_cfg\<lparr>Source_Ignore := []\<rparr>) 0 2
     [source_repo ''a'', source_repo ''b''] [] =
   migrateAll two_candidates_env (connected_cfg\<lparr>Source_Ignore := []\<rparr>) 0 2
     [source_repo ''a''] [] \<and>
   bodyRuns (snd (migrateAll two_candidates_env (connected_cfg\<lparr>Source_Ignore := []\<rparr>) 0 2
     [source_repo ''a'', source_repo ''b''] [])) = Suc (bodyRuns [])"
proof -
  define cfg where "cfg = connected_cfg\<lparr>Source_Ignore := []\<rparr>"
  define t1 where "t1 = log_entry InfoLevel ''processing a repository''
      [(''name'', FString ''a''), (''index'', FString (decimal (0 + 1) @ ''/'' @ decimal 2))] []"
  have name: "Name (source_repo ''a'') = Some ''a''"
    by (simp add: source_repo_def)
  define t2 where "t2 = snd (createRepo create_fails_env cfg (source_repo ''a'') t1)"
  have "fst (createRepo create_fails_env cfg (source_repo ''a'') t1) =
      Return (Inl ''422 name already exists'')"
    unfolding t1_def cfg_def by code_simp
  then have refused: "createRepo create_fails_env cfg (source_repo ''a'') t1 =
      (Return (Inl ''422 name already exists''), t2)"
    by (simp add: t2_def prod_eq_iff)
  from loop_goes_on_until_first_success
    [OF name refused [unfolded t1_def], of "[source_repo ''b'']"]
  have first: "migrateAll create_fails_env cfg 0 2 [source_repo ''a'', source_repo ''b''] [] =
      migrateAll create_fails_env cfg (0 + 1) 2 [source_repo ''b'']
        (log_entry ErrorLevel ''422 name already exists'' [] t2)"
    by (simp only: sum.case)
  define r where "r = created_repo (source_repo ''a''
        \<lparr>HasIssues := Some False, HasProjects := Some False, HasWiki := Some False,
         AllowRebaseMerge := Some False, AllowSquashMerge := Some False,
         Archived := None, SSHURL := None, HTMLURL := None, URL := None\<rparr>)"
  define t2' where "t2' = snd (createRepo two_candidates_env cfg (source_repo ''a'') t1)"
  define t3' where "t3' = snd (cloneAndPush two_candidates_env cfg (source_repo ''a'')
      ''git@h:org/a'' t2')"
  have "fst (createRepo two_candidates_env cfg (source_repo ''a'') t1) = Return (Inr r)"
    unfolding t1_def cfg_def r_def by code_simp
  then have created: "createRepo two_candidates_env cfg (source_repo ''a'') t1 =
      (Return (Inr r), t2')"
    by (simp add: t2'_def prod_eq_iff)
  have url: "SSHURL r = Some ''git@h:org/a''"
    unfolding r_def by code_simp
  have "fst (cloneAndPush two_candidates_env cfg (source_repo ''a'') ''git@h:org/a'' t2') =
      Return None"
    unfolding t2'_def t1_def cfg_def by code_simp
  then have pushed: "cloneAndPush two_candidates_env cfg (source_repo ''a'') ''git@h:org/a'' t2' =
      (Return None, t3')"
    by (simp add: t3'_def prod_eq_iff)
  from loop_goes_on_until_first_success
    [OF name created [unfolded t1_def], of "[source_repo ''b'']"] url pushed
  have second: "migrateAll two_candidates_env cfg 0 2 [source_repo ''a'', source_repo ''b''] [] =
      migrateAll two_candidates_env cfg 0 2 [source_repo ''a''] [] \<and>
    bodyRuns (snd (migrateAll two_candidates_env cfg 0 2
      [source_repo ''a'', source_repo ''b''] [])) = Suc (bodyRuns [])"
    by (simp only: sum.case) force
  from first second show ?thesis
    unfolding cfg_def t2_def t1_def by blast
qed

text \<open>
  C2 as it was stated fails: with the candidates \<open>a\<close> and \<open>b\<close> and a target that refuses to
  create \<open>a\<close>, the body runs twice and both are sent to the target.
\<close>

theorem create_failure_runs_body_twice:
  "map_option fst (main create_fails_env) = Some (Return ()) \<and>
   bodyRuns (final_trace (main create_fails_env)) = 2 \<and>
   map Name (List.map_filter create_request (final_trace (main create_fails_env))) =
     [Some ''a'', Some ''b'']"
  by code_simp

section \<open>The migration of one candidate\<close>




















end
